theory Spec2Isabelle
  imports Complex_Main "HOL-Library.Sublist" "HOL-Library.Monad_Syntax"
begin

section \<open>JavaScript values\<close>

text \<open>
  The two programs modelled here are dynamically typed at run time: the tool server
  (\<^verbatim>\<open>mcp-server.cts\<close>) and the chat client (the React component \<^verbatim>\<open>App\<close>). Their
  values are modelled by one datatype. An object is the list of its own enumerable
  properties in enumeration order, with distinct keys; a function is known by its name
  only. Strings are Isabelle strings, a character beyond ASCII written as its UTF-8 bytes,
  each of them 128 or more. Numbers are rationals; \<^verbatim>\<open>NaN\<close> and the infinities do not occur in the
  catalog or in JSON data and are not modelled.
\<close>

datatype jsval =
    JUndefined
  | JNull
  | JBool bool
  | JNum rat
  | JStr string
  | JArr "jsval list"
  | JObj "(string \<times> jsval) list"
  | JFun string

text \<open>ToBoolean, as \<^verbatim>\<open>if (v)\<close>, \<^verbatim>\<open>!v\<close>, \<^verbatim>\<open>a || b\<close> and \<^verbatim>\<open>a && b\<close> apply it.\<close>

fun truthy :: "jsval \<Rightarrow> bool" where
  "truthy JUndefined = False"
| "truthy JNull = False"
| "truthy (JBool b) = b"
| "truthy (JNum n) = (n \<noteq> 0)"
| "truthy (JStr s) = (s \<noteq> [])"
| "truthy (JArr xs) = True"
| "truthy (JObj ps) = True"
| "truthy (JFun f) = True"

text \<open>
  The properties every ordinary object inherits from \<^verbatim>\<open>Object.prototype\<close>: its
  methods, and the accessor \<^verbatim>\<open>__proto__\<close>, which on an ordinary object yields
  \<^verbatim>\<open>Object.prototype\<close> itself, an object with no enumerable property of its own.
\<close>

definition Object_prototype :: "(string \<times> jsval) list" where
  "Object_prototype =
    [(''constructor'', JFun ''Object''),
     (''__defineGetter__'', JFun ''__defineGetter__''),
     (''__defineSetter__'', JFun ''__defineSetter__''),
     (''hasOwnProperty'', JFun ''hasOwnProperty''),
     (''__lookupGetter__'', JFun ''__lookupGetter__''),
     (''__lookupSetter__'', JFun ''__lookupSetter__''),
     (''isPrototypeOf'', JFun ''isPrototypeOf''),
     (''propertyIsEnumerable'', JFun ''propertyIsEnumerable''),
     (''toString'', JFun ''toString''),
     (''valueOf'', JFun ''valueOf''),
     (''__proto__'', JObj []),
     (''toLocaleString'', JFun ''toLocaleString'')]"

text \<open>
  \<^verbatim>\<open>o[k]\<close> on an ordinary object with own properties \<open>ps\<close>: the own property, else
  the inherited one, else \<^verbatim>\<open>undefined\<close>.
\<close>

definition obj_get :: "(string \<times> jsval) list \<Rightarrow> string \<Rightarrow> jsval" where
  "obj_get ps k =
    (case map_of ps k of
       Some v \<Rightarrow> v
     | None \<Rightarrow> (case map_of Object_prototype k of Some v \<Rightarrow> v | None \<Rightarrow> JUndefined))"

text \<open>\<^verbatim>\<open>Array.prototype.join\<close> on an array of strings.\<close>

fun join :: "string \<Rightarrow> string list \<Rightarrow> string" where
  "join sep [] = []"
| "join sep [x] = x"
| "join sep (x # y # ys) = x @ sep @ join sep (y # ys)"

section \<open>The platform\<close>

text \<open>
  Library functions of the JavaScript platform that the model does not compute are its
  parameters: the decimal form of a number (\<^verbatim>\<open>Number.prototype.toString\<close>, as
  \<^verbatim>\<open>JSON.stringify\<close> and string concatenation use it), \<^verbatim>\<open>toFixed(2)\<close>,
  \<^verbatim>\<open>JSON.parse\<close>, where \<open>None\<close> stands for the \<^verbatim>\<open>SyntaxError\<close> it throws, and
  \<^verbatim>\<open>String.prototype.toLowerCase\<close> and \<^verbatim>\<open>String.prototype.trim\<close> on a string
  that holds a character beyond ASCII, where the Unicode case mapping and the Unicode
  white space decide.
\<close>

record runtime =
  Number_toString :: "rat \<Rightarrow> string"
  Number_toFixed2 :: "rat \<Rightarrow> string"
  JSON_parse :: "string \<Rightarrow> jsval option"
  String_toLowerCase :: "string \<Rightarrow> string"
  String_trim :: "string \<Rightarrow> string"

subsection \<open>Strings\<close>

text \<open>Whether every character of a string is an ASCII character, a byte below 128.\<close>

definition ascii :: "string \<Rightarrow> bool" where
  "ascii s = list_all (\<lambda>c. (of_char c :: nat) < 128) s"

text \<open>
  \<^verbatim>\<open>String.prototype.toLowerCase\<close>: on ASCII text it maps the letters A to Z and
  nothing else; any other string is the platform's to map.
\<close>

definition upper_letters :: string where
  "upper_letters = ''ABCDEFGHIJKLMNOPQRSTUVWXYZ''"

definition lower_letters :: string where
  "lower_letters = ''abcdefghijklmnopqrstuvwxyz''"

definition lower_char :: "char \<Rightarrow> char" where
  "lower_char c =
    (case map_of (zip upper_letters lower_letters) c of
       Some l \<Rightarrow> l
     | None \<Rightarrow> c)"

definition toLowerCase :: "runtime \<Rightarrow> string \<Rightarrow> string" where
  "toLowerCase rt s = (if ascii s then map lower_char s else String_toLowerCase rt s)"

text \<open>
  \<^verbatim>\<open>String.prototype.trim\<close>: on ASCII text it strips tab, line feed, vertical tab,
  form feed, carriage return and space from both ends; any other string is the
  platform's to trim.
\<close>

definition is_space :: "char \<Rightarrow> bool" where
  "is_space c = (c \<in> set [CHR 0x09, CHR 0x0A, CHR 0x0B, CHR 0x0C, CHR 0x0D, CHR 0x20])"

definition trim :: "runtime \<Rightarrow> string \<Rightarrow> string" where
  "trim rt s =
    (if ascii s then rev (dropWhile is_space (rev (dropWhile is_space s))) else String_trim rt s)"

subsection \<open>\<^verbatim>\<open>JSON.stringify\<close>\<close>

definition hex_digit :: "nat \<Rightarrow> char" where
  "hex_digit n = ''0123456789abcdef'' ! (n mod 16)"

text \<open>QuoteJSONString: the escapes of one character, then the quoted string.\<close>

definition quote_char :: "char \<Rightarrow> string" where
  "quote_char c =
    (if c = CHR 0x22 then [CHR 0x5C, CHR 0x22]
     else if c = CHR 0x5C then [CHR 0x5C, CHR 0x5C]
     else if c = CHR 0x08 then [CHR 0x5C, CHR ''b'']
     else if c = CHR 0x09 then [CHR 0x5C, CHR ''t'']
     else if c = CHR 0x0A then [CHR 0x5C, CHR ''n'']
     else if c = CHR 0x0C then [CHR 0x5C, CHR ''f'']
     else if c = CHR 0x0D then [CHR 0x5C, CHR ''r'']
     else if (of_char c :: nat) < 32
       then [CHR 0x5C, CHR ''u'', CHR ''0'', CHR ''0'',
             hex_digit (of_char c div 16), hex_digit (of_char c)]
     else [c])"

definition quote :: "string \<Rightarrow> string" where
  "quote s = [CHR 0x22] @ concat (map quote_char s) @ [CHR 0x22]"

text \<open>
  \<^verbatim>\<open>JSON.stringify(v)\<close> without replacer or indentation; \<open>None\<close> is the result
  \<^verbatim>\<open>undefined\<close>. A property whose value is \<^verbatim>\<open>undefined\<close> or a function is left
  out of an object, and such an element of an array is written \<^verbatim>\<open>null\<close>.
\<close>

fun JSON_stringify :: "runtime \<Rightarrow> jsval \<Rightarrow> string option"
  and stringify_elements :: "runtime \<Rightarrow> jsval list \<Rightarrow> string list"
  and stringify_properties :: "runtime \<Rightarrow> (string \<times> jsval) list \<Rightarrow> string list"
where
  "JSON_stringify rt JUndefined = None"
| "JSON_stringify rt (JFun f) = None"
| "JSON_stringify rt JNull = Some ''null''"
| "JSON_stringify rt (JBool b) = Some (if b then ''true'' else ''false'')"
| "JSON_stringify rt (JNum n) = Some (Number_toString rt n)"
| "JSON_stringify rt (JStr s) = Some (quote s)"
| "JSON_stringify rt (JArr xs) = Some (''['' @ join '','' (stringify_elements rt xs) @ '']'')"
| "JSON_stringify rt (JObj ps) = Some (''{'' @ join '','' (stringify_properties rt ps) @ ''}'')"
| "stringify_elements rt [] = []"
| "stringify_elements rt (x # xs) =
    (case JSON_stringify rt x of None \<Rightarrow> ''null'' | Some t \<Rightarrow> t) # stringify_elements rt xs"
| "stringify_properties rt [] = []"
| "stringify_properties rt ((k, v) # ps) =
    (case JSON_stringify rt v of
       None \<Rightarrow> stringify_properties rt ps
     | Some t \<Rightarrow> (quote k @ '':'' @ t) # stringify_properties rt ps)"

text \<open>\<^verbatim>\<open>JSON.stringify\<close> of an object: always a string.\<close>

definition stringify_object :: "runtime \<Rightarrow> (string \<times> jsval) list \<Rightarrow> string" where
  "stringify_object rt ps = ''{'' @ join '','' (stringify_properties rt ps) @ ''}''"

section \<open>The tool server\<close>

text \<open>
  The file \<^verbatim>\<open>mcp-server.cts\<close> holds the TypeScript program between the two markers of
  a shell here-document; the model reads that program, with the backquotes and dollar
  signs the here-document escapes read as the template literals they stand for.
\<close>

record Offer =
  id' :: string
  name :: string
  price :: rat
  description :: string

record GetOffersInput =
  category :: "string option"

record CreateLinkInput =
  offer_id :: "string option"

record GenerateOfferWidgetInput =
  offers :: "Offer list option"

text \<open>An \<open>Offer\<close> as the object its literal builds, properties in the literal's order.\<close>

definition offer_object :: "Offer \<Rightarrow> jsval" where
  "offer_object offer =
    JObj [(''id'', JStr (id' offer)), (''name'', JStr (name offer)),
          (''price'', JNum (price offer)), (''description'', JStr (description offer))]"

definition OFFERS_home :: "Offer list" where
  "OFFERS_home =
    [\<lparr>id' = ''home_basic'', name = ''Home Basic Shield'', price = 49.99,
      description = ''Door/Window sensors, 24/7 monitoring.''\<rparr>,
     \<lparr>id' = ''home_pro'', name = ''Home Pro+'', price = 99.99,
      description = ''Includes cameras, smart alerts, and fire monitoring.''\<rparr>]"

definition OFFERS_business :: "Offer list" where
  "OFFERS_business =
    [\<lparr>id' = ''biz_starter'', name = ''Business Starter'', price = 79.99,
      description = ''Basic access control and alarm monitoring.''\<rparr>,
     \<lparr>id' = ''biz_fortress'', name = ''Business Fortress'', price = 199.99,
      description = ''Full video surveillance, remote access, advanced analytics.''\<rparr>]"

text \<open>The object \<^verbatim>\<open>OFFERS\<close>: its own properties.\<close>

definition OFFERS :: "(string \<times> jsval) list" where
  "OFFERS =
    [(''home'', JArr (map offer_object OFFERS_home)),
     (''business'', JArr (map offer_object OFFERS_business))]"

text \<open>The envelope every handler returns: \<^verbatim>\<open>{ content: [{ type: 'text', text: t }] }\<close>.\<close>

definition text_envelope :: "string \<Rightarrow> jsval" where
  "text_envelope t = JObj [(''content'', JArr [JObj [(''type'', JStr ''text''), (''text'', JStr t)]])]"

subsection \<open>\<^verbatim>\<open>getOffers\<close>\<close>

definition selectedCategory :: "runtime \<Rightarrow> GetOffersInput \<Rightarrow> string" where
  "selectedCategory rt input =
    (case category input of
       None \<Rightarrow> ''home''
     | Some c \<Rightarrow> if c \<noteq> [] then toLowerCase rt c else ''home'')"

text \<open>\<^verbatim>\<open>OFFERS[selectedCategory] || OFFERS.home\<close>\<close>

definition selectedOffers :: "runtime \<Rightarrow> GetOffersInput \<Rightarrow> jsval" where
  "selectedOffers rt input =
    (let found = obj_get OFFERS (selectedCategory rt input)
     in if truthy found then found else obj_get OFFERS ''home'')"

definition getOffers :: "runtime \<Rightarrow> GetOffersInput \<Rightarrow> jsval" where
  "getOffers rt input =
    text_envelope (stringify_object rt [(''offers'', selectedOffers rt input)])"

subsection \<open>\<^verbatim>\<open>createPurchaseLink\<close>\<close>

text \<open>
  The template literal of the checkout URL; \<open>uuid\<close> is what this call's
  \<^verbatim>\<open>randomUUID()\<close> returned.
\<close>

definition checkoutUrl :: "runtime \<Rightarrow> string \<Rightarrow> string \<Rightarrow> string" where
  "checkoutUrl rt oid uuid =
    ''https://your-company.com/checkout/'' @ toLowerCase rt oid @
    ''?source=agent-'' @ take 8 uuid"

definition missing_offer_id :: string where
  "missing_offer_id =
    ''Error: Missing offer ID. Please ask the user to specify an ID from the available offers.''"

definition createPurchaseLink :: "runtime \<Rightarrow> string \<Rightarrow> CreateLinkInput \<Rightarrow> jsval" where
  "createPurchaseLink rt uuid input =
    (case offer_id input of
       None \<Rightarrow> text_envelope missing_offer_id
     | Some oid \<Rightarrow>
         if oid = [] then text_envelope missing_offer_id
         else text_envelope (stringify_object rt [(''purchase_url'', JStr (checkoutUrl rt oid uuid))]))"

subsection \<open>\<^verbatim>\<open>generateOfferWidget\<close>\<close>

text \<open>The fixed text of the two template literals, between their interpolations.\<close>

definition card_part1 :: string where
  \<open>card_part1 =
     ''\<newline>'' @
     ''            <div class="p-4 bg-white rounded-xl shadow-lg border border-indigo-100 mb-4 transition-all hover:shadow-xl hover:scale-[1.01] cursor-pointer" \<newline>'' @
     ''                 data-offer-id="''\<close>

definition card_part2 :: string where
  \<open>card_part2 =
     ''">\<newline>'' @
     ''                <div class="flex items-start justify-between">\<newline>'' @
     ''                    <h3 class="text-xl font-bold text-indigo-700">''\<close>

definition card_part3 :: string where
  \<open>card_part3 =
     ''</h3>\<newline>'' @
     ''                    <p class="text-2xl font-extrabold text-gray-900">$''\<close>

definition card_part4 :: string where
  \<open>card_part4 =
     ''</p>\<newline>'' @
     ''                </div>\<newline>'' @
     ''                <p class="text-sm text-gray-500 mt-2">''\<close>

definition card_part5 :: string where
  \<open>card_part5 =
     ''</p>\<newline>'' @
     ''                <!-- This button would trigger a subsequent action or tool call -->\<newline>'' @
     ''                <button class="mt-4 w-full bg-indigo-600 text-white py-2 rounded-lg font-medium hover:bg-indigo-700 transition duration-150"\<newline>'' @
     ''                        onclick="agentCall('createPurchaseLink', {offer_id: '' @
     [CHR 0x27]\<close>

definition card_part6 :: string where
  \<open>card_part6 =
     [CHR 0x27] @
     ''})">\<newline>'' @
     ''                    Select Plan\<newline>'' @
     ''                </button>\<newline>'' @
     ''            </div>\<newline>'' @
     ''        ''\<close>

definition frame_part1 :: string where
  \<open>frame_part1 =
     ''\<newline>'' @
     ''            <div class="p-6 bg-gray-50 rounded-2xl shadow-2xl">\<newline>'' @
     ''                <h2 class="text-2xl font-extrabold text-indigo-800 border-b pb-3 mb-4">\<newline>'' @
     ''                    Recommended Security Packages '' @
     [CHR 0xF0, CHR 0x9F, CHR 0x9B, CHR 0xA1, CHR 0xEF, CHR 0xB8, CHR 0x8F] @
     ''\<newline>'' @
     ''                </h2>\<newline>'' @
     ''                ''\<close>

definition frame_part2 :: string where
  \<open>frame_part2 =
     ''\<newline>'' @
     ''                <p class="mt-4 text-xs text-gray-500 text-center">\<newline>'' @
     ''                    Click 'Select Plan' to generate a unique purchase link.\<newline>'' @
     ''                </p>\<newline>'' @
     ''            </div>\<newline>'' @
     ''        ''\<close>


text \<open>The card of one offer, with \<^verbatim>\<open>offer.price.toFixed(2)\<close> from the platform.\<close>

definition offer_card :: "runtime \<Rightarrow> Offer \<Rightarrow> string" where
  "offer_card rt offer =
    card_part1 @ id' offer @ card_part2 @ name offer @ card_part3 @
    Number_toFixed2 rt (price offer) @ card_part4 @ description offer @ card_part5 @
    id' offer @ card_part6"

definition widgetHtml :: "runtime \<Rightarrow> Offer list \<Rightarrow> string" where
  "widgetHtml rt os = join [] (map (offer_card rt) os)"

definition finalWidget :: "runtime \<Rightarrow> Offer list \<Rightarrow> string" where
  "finalWidget rt os = frame_part1 @ widgetHtml rt os @ frame_part2"

text \<open>The object handed to \<^verbatim>\<open>JSON.stringify\<close> on either branch.\<close>

definition widget_payload :: "runtime \<Rightarrow> GenerateOfferWidgetInput \<Rightarrow> (string \<times> jsval) list" where
  "widget_payload rt input =
    (case offers input of
       None \<Rightarrow>
         [(''status'', JStr ''error''),
          (''message'', JStr ''No offers available to generate widget.'')]
     | Some os \<Rightarrow>
         if length os = 0
         then [(''status'', JStr ''error''),
               (''message'', JStr ''No offers available to generate widget.'')]
         else [(''status'', JStr ''success''),
               (''widget_data'',
                  JObj [(''html'', JStr (finalWidget rt os)),
                        (''metadata'', JObj [(''offers'', JArr (map (\<lambda>offer. JStr (id' offer)) os))])])])"

definition generateOfferWidget :: "runtime \<Rightarrow> GenerateOfferWidgetInput \<Rightarrow> jsval" where
  "generateOfferWidget rt input = text_envelope (stringify_object rt (widget_payload rt input))"

section \<open>The chat client\<close>

subsection \<open>Reading properties\<close>

text \<open>
  A computation that may throw returns an option, \<open>None\<close> for the exception: the
  client catches every exception alike and never looks at it.

  \<^verbatim>\<open>v?.k\<close> never throws. Besides the lookup in \<^verbatim>\<open>OFFERS\<close>, the programs read
  properties by fixed names only (\<^verbatim>\<open>content\<close>, \<^verbatim>\<open>parts\<close>, \<^verbatim>\<open>text\<close>,
  \<^verbatim>\<open>functionCall\<close>, \<^verbatim>\<open>groundingMetadata\<close>, \<^verbatim>\<open>groundingAttributions\<close>, \<^verbatim>\<open>web\<close>,
  \<^verbatim>\<open>uri\<close>, \<^verbatim>\<open>title\<close>, \<^verbatim>\<open>error\<close>, \<^verbatim>\<open>candidates\<close>, \<^verbatim>\<open>widget_data\<close>,
  \<^verbatim>\<open>toolCalls\<close>, \<^verbatim>\<open>role\<close>, \<^verbatim>\<open>widget\<close>, \<^verbatim>\<open>html\<close>), none of which a string,
  number, boolean, array or function has; so such a read of a value that is not an
  ordinary object gives \<^verbatim>\<open>undefined\<close>.
\<close>

fun opt_get :: "jsval \<Rightarrow> string \<Rightarrow> jsval" where
  "opt_get (JObj ps) k = obj_get ps k"
| "opt_get v k = JUndefined"

fun nullish :: "jsval \<Rightarrow> bool" where
  "nullish JUndefined = True"
| "nullish JNull = True"
| "nullish v = False"

text \<open>\<^verbatim>\<open>v.k\<close>: a \<^verbatim>\<open>TypeError\<close> on \<^verbatim>\<open>undefined\<close> and \<^verbatim>\<open>null\<close>.\<close>

definition get :: "jsval \<Rightarrow> string \<Rightarrow> jsval option" where
  "get v k = (if nullish v then None else Some (opt_get v k))"

text \<open>\<^verbatim>\<open>v[0]\<close>\<close>

fun index0 :: "jsval \<Rightarrow> jsval option" where
  "index0 JUndefined = None"
| "index0 JNull = None"
| "index0 (JArr []) = Some JUndefined"
| "index0 (JArr (x # xs)) = Some x"
| "index0 (JStr []) = Some JUndefined"
| "index0 (JStr (c # cs)) = Some (JStr [c])"
| "index0 (JObj ps) = Some (obj_get ps ''0'')"
| "index0 v = Some JUndefined"

text \<open>
  \<^verbatim>\<open>o.k = v\<close> on an ordinary object: an own property keeps its place, a new one (no
  name assigned here is an array index) comes last. On a primitive value the assignment
  changes nothing (the \<^verbatim>\<open>TypeError\<close> of strict code is thrown after the place that
  assigns has done its other work, inside its \<^verbatim>\<open>try\<close>).
\<close>

fun update_prop :: "string \<Rightarrow> jsval \<Rightarrow> (string \<times> jsval) list \<Rightarrow> (string \<times> jsval) list" where
  "update_prop k v [] = [(k, v)]"
| "update_prop k v ((k', v') # ps) =
    (if k' = k then (k, v) # ps else (k', v') # update_prop k v ps)"

fun set_prop :: "jsval \<Rightarrow> string \<Rightarrow> jsval \<Rightarrow> jsval" where
  "set_prop (JObj ps) k v = JObj (update_prop k v ps)"
| "set_prop m k v = m"

text \<open>
  ToString, as \<^verbatim>\<open>text += v\<close> applies it to a value that need not be a string. An
  array joins its elements with commas, \<^verbatim>\<open>undefined\<close> and \<^verbatim>\<open>null\<close> as the empty
  string. An ordinary object is \<^verbatim>\<open>[object Object]\<close>, unless it has an own property
  \<^verbatim>\<open>toString\<close>: a value of JSON data is not callable, and the conversion throws.
\<close>

fun ToString :: "runtime \<Rightarrow> jsval \<Rightarrow> string option"
  and ToString_elements :: "runtime \<Rightarrow> jsval list \<Rightarrow> string list option"
where
  "ToString rt JUndefined = Some ''undefined''"
| "ToString rt JNull = Some ''null''"
| "ToString rt (JBool b) = Some (if b then ''true'' else ''false'')"
| "ToString rt (JNum n) = Some (Number_toString rt n)"
| "ToString rt (JStr s) = Some s"
| "ToString rt (JArr xs) =
    (case ToString_elements rt xs of None \<Rightarrow> None | Some ts \<Rightarrow> Some (join '','' ts))"
| "ToString rt (JObj ps) =
    (if map_of ps ''toString'' = None then Some ''[object Object]'' else None)"
| "ToString rt (JFun f) = Some (''function '' @ f @ ''() { [native code] }'')"
| "ToString_elements rt [] = Some []"
| "ToString_elements rt (x # xs) =
    (case (if nullish x then Some [] else ToString rt x) of
       None \<Rightarrow> None
     | Some t \<Rightarrow> (case ToString_elements rt xs of None \<Rightarrow> None | Some ts \<Rightarrow> Some (t # ts)))"

subsection \<open>\<^verbatim>\<open>parseAgentResponse\<close>\<close>

record ParsedResponse =
  toolCalls :: "jsval list"
  text' :: string
  groundingSources :: "jsval list"

text \<open>
  The callback of \<^verbatim>\<open>groundingAttributions.map\<close> over the elements of the array:
  \<^verbatim>\<open>attr.web\<close> throws on an element that is \<^verbatim>\<open>null\<close>.
\<close>

fun attributions :: "jsval list \<Rightarrow> jsval list option" where
  "attributions [] = Some []"
| "attributions (attr # attrs) =
    (case get attr ''web'' of
       None \<Rightarrow> None
     | Some web \<Rightarrow>
         (case attributions attrs of
            None \<Rightarrow> None
          | Some rest \<Rightarrow>
              Some (JObj [(''uri'', opt_get web ''uri''), (''title'', opt_get web ''title'')] # rest)))"

text \<open>
  One round of the loop over the parts. A value with no callable \<^verbatim>\<open>map\<close> for
  \<^verbatim>\<open>groundingAttributions\<close> (anything but an array) throws.
\<close>

definition parse_part :: "runtime \<Rightarrow> ParsedResponse \<Rightarrow> jsval \<Rightarrow> ParsedResponse option" where
  "parse_part rt acc part = do {
     functionCall \<leftarrow> get part ''functionCall'';
     text \<leftarrow> get part ''text'';
     added \<leftarrow> (if truthy text then ToString rt text else Some []);
     groundingMetadata \<leftarrow> get part ''groundingMetadata'';
     sources \<leftarrow>
       (let attrs = opt_get groundingMetadata ''groundingAttributions''
        in if truthy attrs then (case attrs of JArr xs \<Rightarrow> attributions xs | _ \<Rightarrow> None)
           else Some []);
     Some \<lparr>toolCalls = toolCalls acc @ (if truthy functionCall then [functionCall] else []),
           text' = text' acc @ added,
           groundingSources = groundingSources acc @ sources\<rparr>
   }"

fun parse_parts :: "runtime \<Rightarrow> ParsedResponse \<Rightarrow> jsval list \<Rightarrow> ParsedResponse option" where
  "parse_parts rt acc [] = Some acc"
| "parse_parts rt acc (part # parts) =
    (case parse_part rt acc part of
       None \<Rightarrow> None
     | Some acc' \<Rightarrow> parse_parts rt acc' parts)"

text \<open>
  What \<^verbatim>\<open>for (const part of parts)\<close> runs over: the elements of an array, the
  characters of a string; any other value here (an object, a number, \<^verbatim>\<open>true\<close>) is
  not iterable and the loop throws.
\<close>

fun iterate :: "jsval \<Rightarrow> jsval list option" where
  "iterate (JArr xs) = Some xs"
| "iterate (JStr s) = Some (map (\<lambda>c. JStr [c]) s)"
| "iterate v = None"

definition parseAgentResponse :: "runtime \<Rightarrow> jsval \<Rightarrow> ParsedResponse option" where
  "parseAgentResponse rt message =
    (let found = opt_get (opt_get message ''content'') ''parts'';
         parts = (if truthy found then found else JArr [])
     in case iterate parts of
          None \<Rightarrow> None
        | Some ps \<Rightarrow> parse_parts rt \<lparr>toolCalls = [], text' = [], groundingSources = []\<rparr> ps)"

subsection \<open>\<^verbatim>\<open>callAgent\<close>\<close>

text \<open>
  The outcome of \<^verbatim>\<open>axios.post\<close> is an input of the model: \<open>Some data\<close> for a
  response with body \<open>data\<close>, \<open>None\<close> when the request fails and the promise rejects.
\<close>

definition agent_request :: "jsval list \<Rightarrow> jsval" where
  "agent_request history =
    JObj [(''agentId'', JStr ''security-sales-tool''), (''history'', JArr history),
          (''toolOutputs'', JArr [])]"

definition connect_failure :: string where
  "connect_failure = ''Failed to connect to the agent service.''"

definition callAgent_result :: "jsval option \<Rightarrow> jsval" where
  "callAgent_result outcome =
    (case outcome of
       Some data \<Rightarrow> data
     | None \<Rightarrow> JObj [(''error'', JStr connect_failure)])"

definition callAgent :: "(jsval \<Rightarrow> jsval option) \<Rightarrow> jsval list \<Rightarrow> jsval" where
  "callAgent post history = callAgent_result (post (agent_request history))"

subsection \<open>The state of \<^verbatim>\<open>App\<close> and \<^verbatim>\<open>handleSendMessage\<close>\<close>

record AppState =
  history :: "jsval list"
  input :: string
  isThinking :: bool

definition user_turn :: "string \<Rightarrow> jsval" where
  "user_turn t =
    JObj [(''role'', JStr ''user''), (''content'', JObj [(''parts'', JArr [JObj [(''text'', JStr t)]])])]"

definition error_turn :: "jsval \<Rightarrow> jsval" where
  "error_turn e = JObj [(''role'', JStr ''error''), (''error'', e)]"

definition greeting :: string where
  "greeting =
    ''Hello! How can I assist you today? Try asking about '' @ [CHR 0x27] @ ''home'' @
    [CHR 0x27] @ '' or '' @ [CHR 0x27] @ ''business'' @ [CHR 0x27] @ '' security packages.''"

definition initial_state :: AppState where
  "initial_state =
    \<lparr>history = [JObj [(''role'', JStr ''agent''),
                      (''content'', JObj [(''parts'', JArr [JObj [(''text'', JStr greeting)]])])]],
     input = [], isThinking = False\<rparr>"

text \<open>Whether step 1 of \<^verbatim>\<open>handleSendMessage\<close> takes the typed text.\<close>

definition has_text :: "runtime \<Rightarrow> string option \<Rightarrow> bool" where
  "has_text rt userText =
    (case userText of None \<Rightarrow> False | Some u \<Rightarrow> u \<noteq> [] \<and> trim rt u \<noteq> [])"

text \<open>
  The text of the virtual user message of a widget click; an argument that is
  \<^verbatim>\<open>undefined\<close> takes the default \<^verbatim>\<open>{}\<close>, and a \<^verbatim>\<open>JSON.stringify\<close> that
  returns \<^verbatim>\<open>undefined\<close> prints as such.
\<close>

definition click_message :: "runtime \<Rightarrow> string \<Rightarrow> jsval \<Rightarrow> string" where
  "click_message rt toolName toolArgs =
    ''User clicked widget button: '' @ toolName @ ''('' @
    (case JSON_stringify rt (if toolArgs = JUndefined then JObj [] else toolArgs) of
       None \<Rightarrow> ''undefined''
     | Some t \<Rightarrow> t) @ '')''"

text \<open>
  The local copy \<^verbatim>\<open>newHistory\<close> after steps 1 and 2: the transcript handed to
  \<^verbatim>\<open>callAgent\<close>.
\<close>

definition newHistory ::
  "runtime \<Rightarrow> jsval list \<Rightarrow> string option \<Rightarrow> string option \<Rightarrow> jsval \<Rightarrow> jsval list" where
  "newHistory rt h userText toolName toolArgs =
    (let h1 = (case userText of
                 None \<Rightarrow> h
               | Some u \<Rightarrow> if has_text rt userText then h @ [user_turn u] else h)
     in case toolName of
          None \<Rightarrow> h1
        | Some n \<Rightarrow> if n \<noteq> [] then h1 @ [user_turn (click_message rt n toolArgs)] else h1)"

text \<open>
  What \<^verbatim>\<open>setIsThinking(true)\<close> and \<^verbatim>\<open>setInput('')\<close> make of the state \<open>s\<close> before
  the \<^verbatim>\<open>await\<close>.
\<close>

definition awaiting :: "runtime \<Rightarrow> AppState \<Rightarrow> string option \<Rightarrow> AppState" where
  "awaiting rt s userText =
    s\<lparr>isThinking := True, input := (if has_text rt userText then [] else input s)\<rparr>"

definition confirmation :: string where
  "confirmation = ''Here are the recommended packages:''"

definition unexpected_failure :: string where
  "unexpected_failure = ''An unexpected error occurred during communication.''"

text \<open>
  The inner \<^verbatim>\<open>try\<close>: the value of \<^verbatim>\<open>widget\<close> after it, \<open>None\<close> for \<^verbatim>\<open>null\<close>.
  \<^verbatim>\<open>JSON.parse\<close> may throw, and so may \<^verbatim>\<open>data.widget_data\<close> (on \<^verbatim>\<open>null\<close>); both
  are caught.
\<close>

definition widget_of :: "runtime \<Rightarrow> string \<Rightarrow> jsval option" where
  "widget_of rt t =
    (case JSON_parse rt t of
       None \<Rightarrow> None
     | Some data \<Rightarrow>
         (case get data ''widget_data'' of
            None \<Rightarrow> None
          | Some w \<Rightarrow> if truthy w then Some w else None))"

text \<open>The entry for a response with content \<open>agentMessage\<close>, from its parsed text.\<close>

definition agent_turn :: "runtime \<Rightarrow> jsval \<Rightarrow> ParsedResponse \<Rightarrow> jsval" where
  "agent_turn rt agentMessage parsedOutput =
    (case widget_of rt (text' parsedOutput) of
       None \<Rightarrow> JObj [(''role'', JStr ''agent''), (''content'', agentMessage)]
     | Some widget \<Rightarrow>
         JObj [(''role'', JStr ''agent''),
               (''content'', set_prop agentMessage ''text'' (JStr confirmation)),
               (''widget'', widget)])"

text \<open>
  The body of the outer \<^verbatim>\<open>try\<close> after the \<^verbatim>\<open>await\<close>: the entry it hands to
  \<^verbatim>\<open>setHistory\<close>, or \<open>None\<close> when it throws (before any \<^verbatim>\<open>setHistory\<close>).
\<close>

definition try_response :: "runtime \<Rightarrow> jsval \<Rightarrow> jsval option" where
  "try_response rt result = do {
     err \<leftarrow> get result ''error'';
     if truthy err then Some (error_turn err)
     else do {
       candidates \<leftarrow> get result ''candidates'';
       candidate \<leftarrow> index0 candidates;
       agentMessage \<leftarrow> get candidate ''content'';
       parsedOutput \<leftarrow> parseAgentResponse rt agentMessage;
       Some (agent_turn rt agentMessage parsedOutput)
     }
   }"

text \<open>The one entry appended for a result: by the \<^verbatim>\<open>try\<close>, or by its \<^verbatim>\<open>catch\<close>.\<close>

definition response_turn :: "runtime \<Rightarrow> jsval \<Rightarrow> jsval" where
  "response_turn rt result =
    (case try_response rt result of
       Some turn \<Rightarrow> turn
     | None \<Rightarrow> error_turn (JStr unexpected_failure))"

text \<open>After the \<^verbatim>\<open>await\<close>: \<^verbatim>\<open>setHistory(h => [...h, turn])\<close>, and \<^verbatim>\<open>finally\<close>.\<close>

definition resume :: "runtime \<Rightarrow> AppState \<Rightarrow> jsval \<Rightarrow> AppState" where
  "resume rt s result = s\<lparr>history := history s @ [response_turn rt result], isThinking := False\<rparr>"

text \<open>
  \<^verbatim>\<open>handleSendMessage\<close> as the render of state \<open>s\<close> made it, called in that state
  and run to its end with nothing else in between, the agent's answer given by
  \<open>post\<close>. The array \<^verbatim>\<open>toolOutputs\<close> it builds for a widget click is never used.
\<close>

definition handleSendMessage ::
  "runtime \<Rightarrow> (jsval \<Rightarrow> jsval option) \<Rightarrow> AppState \<Rightarrow> string option \<Rightarrow> string option \<Rightarrow> jsval
     \<Rightarrow> AppState" where
  "handleSendMessage rt post s userText toolName toolArgs =
    (if isThinking s then s
     else resume rt (awaiting rt s userText)
            (callAgent post (newHistory rt (history s) userText toolName toolArgs)))"

subsection \<open>\<^verbatim>\<open>ChatMessage\<close>\<close>

text \<open>
  What the component shows, without its styling: the error box, the widget's markup, or
  the text with at most three sources. The hint that a tool call is running is left out;
  reading \<^verbatim>\<open>message.toolCalls\<close> for it throws on a message that is \<^verbatim>\<open>undefined\<close>.
\<close>

datatype view =
    ErrorView jsval
  | WidgetView jsval
  | TextView string "jsval list"

definition ChatMessage :: "runtime \<Rightarrow> jsval \<Rightarrow> bool \<Rightarrow> bool \<Rightarrow> view option" where
  "ChatMessage rt message isError showLoading = do {
     parsed \<leftarrow> parseAgentResponse rt message;
     calls \<leftarrow> get message ''toolCalls'';
     if isError then Some (ErrorView (opt_get message ''error''))
     else if opt_get message ''role'' = JStr ''tool'' \<and> truthy (opt_get message ''widget'')
     then Some (WidgetView (opt_get (opt_get message ''widget'') ''html''))
     else Some (TextView (if showLoading then ''Agent is thinking...'' else text' parsed)
                  (take 3 (groundingSources parsed)))
   }"

text \<open>
  The element \<^verbatim>\<open>App\<close> renders for the entry \<open>message\<close> at \<open>index\<close>, and the
  list \<^verbatim>\<open>history.map\<close> makes of them; \<open>None\<close> is a \<^verbatim>\<open>ChatMessage\<close> that throws.
\<close>

definition render_entry :: "runtime \<Rightarrow> AppState \<Rightarrow> nat \<Rightarrow> jsval \<Rightarrow> view option" where
  "render_entry rt s index message =
    ChatMessage rt (opt_get message ''content'') (opt_get message ''role'' = JStr ''error'')
      (index + 1 = length (history s) \<and> isThinking s)"

definition render :: "runtime \<Rightarrow> AppState \<Rightarrow> view option list" where
  "render rt s = map (\<lambda>(index, message). render_entry rt s index message) (enumerate 0 (history s))"

subsection \<open>The orchestrator as a machine\<close>

text \<open>
  \<^verbatim>\<open>App\<close> under React. The state lives between renders; a render reads it, and the
  \<^verbatim>\<open>handleSendMessage\<close> that render makes closes over the \<^verbatim>\<open>history\<close> and
  \<^verbatim>\<open>isThinking\<close> it read. The effect that runs after a render binds that render's
  function to \<^verbatim>\<open>window.agentCall\<close>. So a submission checks and copies the state of
  an earlier render, not the live one, while \<^verbatim>\<open>setIsThinking\<close>, \<^verbatim>\<open>setInput\<close>
  and \<^verbatim>\<open>setHistory(h => ...)\<close> act on the live state. A render in which a
  \<^verbatim>\<open>ChatMessage\<close> throws unmounts \<^verbatim>\<open>App\<close> (no error boundary is there): its markup is
  gone, the clean-up of the effect deletes \<^verbatim>\<open>window.agentCall\<close>, and a state setter
  called later does nothing.

  \<open>rendered\<close> is the state the last render read, \<open>bound\<close> the state read by the render
  whose function is bound to \<^verbatim>\<open>window.agentCall\<close>, and \<open>in_flight\<close> lists the requests
  whose outcome has not arrived.
\<close>

datatype event =
    Submit "string option" "string option" jsval
  | AgentCall string jsval
  | Render
  | Effect
  | Outcome "jsval option"

record System =
  app :: AppState
  rendered :: AppState
  bound :: AppState
  in_flight :: "jsval list"
  mounted :: bool

text \<open>
  A call of the \<^verbatim>\<open>handleSendMessage\<close> that closes over the state \<open>seen\<close>, up to its
  \<^verbatim>\<open>await\<close>.
\<close>

definition submit ::
  "runtime \<Rightarrow> System \<Rightarrow> AppState \<Rightarrow> string option \<Rightarrow> string option \<Rightarrow> jsval \<Rightarrow> System" where
  "submit rt sys seen userText toolName toolArgs =
    (if isThinking seen then sys
     else sys\<lparr>app := awaiting rt (app sys) userText,
              in_flight := in_flight sys @
                [agent_request (newHistory rt (history seen) userText toolName toolArgs)]\<rparr>)"

text \<open>
  \<open>Submit\<close> is a call of the function of the last render (the button, the enter key),
  \<open>AgentCall\<close> a call of \<^verbatim>\<open>window.agentCall\<close>, \<open>Outcome\<close> the end of the oldest
  \<^verbatim>\<open>await\<close>.
\<close>

fun step :: "runtime \<Rightarrow> System \<Rightarrow> event \<Rightarrow> System" where
  "step rt sys (Submit userText toolName toolArgs) =
    (if mounted sys then submit rt sys (rendered sys) userText toolName toolArgs else sys)"
| "step rt sys (AgentCall toolName toolArgs) =
    (if mounted sys then submit rt sys (bound sys) None (Some toolName) toolArgs else sys)"
| "step rt sys Render =
    (if mounted sys
     then (if None \<in> set (render rt (app sys)) then sys\<lparr>mounted := False\<rparr>
           else sys\<lparr>rendered := app sys\<rparr>)
     else sys)"
| "step rt sys Effect = (if mounted sys then sys\<lparr>bound := rendered sys\<rparr> else sys)"
| "step rt sys (Outcome outcome) =
    (case in_flight sys of
       [] \<Rightarrow> sys
     | request # requests \<Rightarrow>
         if mounted sys
         then sys\<lparr>app := resume rt (app sys) (callAgent_result outcome), in_flight := requests\<rparr>
         else sys\<lparr>in_flight := requests\<rparr>)"

definition run :: "runtime \<Rightarrow> System \<Rightarrow> event list \<Rightarrow> System" where
  "run rt sys events = foldl (step rt) sys events"

text \<open>The entry \<^verbatim>\<open>setHistory\<close> appends to the stored conversation in one step, if any.\<close>

fun step_appended :: "runtime \<Rightarrow> System \<Rightarrow> event \<Rightarrow> jsval list" where
  "step_appended rt sys (Outcome outcome) =
    (case in_flight sys of
       [] \<Rightarrow> []
     | request # requests \<Rightarrow>
         if mounted sys then [response_turn rt (callAgent_result outcome)] else [])"
| "step_appended rt sys ev = []"

text \<open>The entries \<^verbatim>\<open>setHistory\<close> appends during a run, in the order of the calls.\<close>

fun appended :: "runtime \<Rightarrow> System \<Rightarrow> event list \<Rightarrow> jsval list" where
  "appended rt sys [] = []"
| "appended rt sys (ev # events) = step_appended rt sys ev @ appended rt (step rt sys ev) events"

text \<open>After the first render and its effect.\<close>

definition initial_system :: System where
  "initial_system =
    \<lparr>app = initial_state, rendered = initial_state, bound = initial_state, in_flight = [],
     mounted = True\<rparr>"

subsection \<open>A platform to evaluate on\<close>

text \<open>
  One instance of the platform for concrete evaluations: it prints the prices of the
  catalog as JavaScript does, and parses one text, a widget payload. The evaluations
  lower-case and trim ASCII text only, which never reaches the last two functions.
\<close>

definition catalog_decimal :: "rat \<Rightarrow> string" where
  "catalog_decimal n =
    (if n = 49.99 then ''49.99'' else if n = 99.99 then ''99.99''
     else if n = 79.99 then ''79.99'' else if n = 199.99 then ''199.99'' else ''0'')"

definition sample_widget :: jsval where
  "sample_widget =
    JObj [(''html'', JStr ''<b>Offers</b>''),
          (''metadata'', JObj [(''offers'', JArr [JStr ''home_basic''])])]"

definition sample_widget_text :: string where
  \<open>sample_widget_text =
     ''{"status":"success","widget_data":{"html":"<b>Offers</b>","metadata":{"offers":["home_basic"]}}}''\<close>

definition sample_runtime :: runtime where
  "sample_runtime =
    \<lparr>Number_toString = catalog_decimal, Number_toFixed2 = catalog_decimal,
     JSON_parse = (\<lambda>t. if t = sample_widget_text
                        then Some (JObj [(''status'', JStr ''success''), (''widget_data'', sample_widget)])
                        else None),
     String_toLowerCase = (\<lambda>s. s), String_trim = (\<lambda>s. s)\<rparr>"

text \<open>
  Three answers of the agent service: prose in the shape
  \<^verbatim>\<open>{ candidates: [{ content: { parts: [{ text }] } }] }\<close>, the widget payload in
  that shape, and the widget payload one \<^verbatim>\<open>content\<close> deeper, where
  \<^verbatim>\<open>parseAgentResponse\<close> looks for the parts of the value it is given.
\<close>

definition prose_reply :: jsval where
  "prose_reply =
    JObj [(''candidates'', JArr [JObj [(''content'',
      JObj [(''parts'', JArr [JObj [(''text'', JStr ''We have two home packages.'')]])])]])]"

definition widget_reply :: jsval where
  "widget_reply =
    JObj [(''candidates'', JArr [JObj [(''content'',
      JObj [(''parts'', JArr [JObj [(''text'', JStr sample_widget_text)]])])]])]"

definition nested_widget_reply :: jsval where
  "nested_widget_reply =
    JObj [(''candidates'', JArr [JObj [(''content'',
      JObj [(''content'', JObj [(''parts'', JArr [JObj [(''text'', JStr sample_widget_text)]])])])]])]"

section \<open>Properties of the tool server\<close>

lemmas lower_defs = toLowerCase_def ascii_def lower_char_def upper_letters_def lower_letters_def

lemma letters_disjoint: "set lower_letters \<inter> set upper_letters = {}"
  by (simp add: lower_letters_def upper_letters_def)

lemma letters_length: "length upper_letters = length lower_letters"
  by (simp add: lower_letters_def upper_letters_def)

lemma lower_char_not_upper: "lower_char c \<notin> set upper_letters"
proof (cases "map_of (zip upper_letters lower_letters) c")
  case None
  then have "c \<notin> set upper_letters"
    using map_of_zip_is_None [OF letters_length] by blast
  with None show ?thesis by (simp add: lower_char_def)
next
  case (Some l)
  then have "l \<in> set lower_letters"
    by (meson map_of_SomeD set_zip_rightD)
  then have "l \<notin> set upper_letters" using letters_disjoint by blast
  with Some show ?thesis by (simp add: lower_char_def)
qed

lemma toLowerCase_no_upper: "ascii s \<Longrightarrow> set (toLowerCase rt s) \<inter> set upper_letters = {}"
  unfolding toLowerCase_def using lower_char_not_upper by auto

text \<open>
  Of the names \<^verbatim>\<open>Object.prototype\<close> defines, a string without capital letters can only
  be \<^verbatim>\<open>constructor\<close> or \<^verbatim>\<open>__proto__\<close>: the others hold a capital letter.
\<close>

lemma inherited_lower:
  assumes "set k \<inter> set upper_letters = {}" and "k \<noteq> ''constructor''" and "k \<noteq> ''__proto__''"
  shows "map_of Object_prototype k = None"
proof -
  have u: "CHR ''G'' \<in> set upper_letters" "CHR ''S'' \<in> set upper_letters"
    "CHR ''O'' \<in> set upper_letters" "CHR ''P'' \<in> set upper_letters"
    "CHR ''I'' \<in> set upper_letters" "CHR ''L'' \<in> set upper_letters"
    by (simp_all add: upper_letters_def)
  have "k \<noteq> ''__defineGetter__''" "k \<noteq> ''__defineSetter__''" "k \<noteq> ''hasOwnProperty''"
    "k \<noteq> ''__lookupGetter__''" "k \<noteq> ''__lookupSetter__''" "k \<noteq> ''isPrototypeOf''"
    "k \<noteq> ''propertyIsEnumerable''" "k \<noteq> ''toString''" "k \<noteq> ''valueOf''"
    "k \<noteq> ''toLocaleString''"
    using assms(1) u by auto
  with assms(2,3) show ?thesis by (simp add: Object_prototype_def)
qed

lemma stringify_object_eq: "JSON_stringify rt (JObj ps) = Some (stringify_object rt ps)"
  by (simp add: stringify_object_def)

subsection \<open>\<^verbatim>\<open>getOffers\<close>\<close>

text \<open>
  A category that lower-cases to \<^verbatim>\<open>home\<close> or \<^verbatim>\<open>business\<close> selects that list of the
  catalog, in the catalog's order.
\<close>

lemma getOffers_known:
  "toLowerCase rt c = ''home'' \<Longrightarrow>
     getOffers rt \<lparr>category = Some c\<rparr> =
       text_envelope (stringify_object rt [(''offers'', JArr (map offer_object OFFERS_home))])"
  "toLowerCase rt c = ''business'' \<Longrightarrow>
     getOffers rt \<lparr>category = Some c\<rparr> =
       text_envelope (stringify_object rt [(''offers'', JArr (map offer_object OFFERS_business))])"
  by (auto simp add: getOffers_def selectedOffers_def selectedCategory_def obj_get_def OFFERS_def
      toLowerCase_def ascii_def)

text \<open>
  An absent or empty category, and every category that lower-cases to a name that is not
  \<^verbatim>\<open>business\<close> and that an object does not inherit, gives the home offers. For ASCII
  text the inherited names to avoid are \<^verbatim>\<open>constructor\<close> and \<^verbatim>\<open>__proto__\<close>.
\<close>

lemma getOffers_absent:
  "getOffers rt \<lparr>category = None\<rparr> =
     text_envelope (stringify_object rt [(''offers'', JArr (map offer_object OFFERS_home))])"
  "getOffers rt \<lparr>category = Some []\<rparr> =
     text_envelope (stringify_object rt [(''offers'', JArr (map offer_object OFFERS_home))])"
  by (simp_all add: getOffers_def selectedOffers_def selectedCategory_def obj_get_def OFFERS_def)

lemma getOffers_fallback:
  assumes "toLowerCase rt c \<noteq> ''business''"
    and "map_of Object_prototype (toLowerCase rt c) = None"
  shows "getOffers rt \<lparr>category = Some c\<rparr> =
     text_envelope (stringify_object rt [(''offers'', JArr (map offer_object OFFERS_home))])"
proof (cases "c = []")
  case True
  then show ?thesis by (simp add: getOffers_absent)
next
  case False
  with assms show ?thesis
    by (simp add: getOffers_def selectedOffers_def selectedCategory_def obj_get_def OFFERS_def)
qed

lemma getOffers_fallback_ascii:
  assumes "ascii c" and "toLowerCase rt c \<noteq> ''business''"
    and "toLowerCase rt c \<noteq> ''constructor''" and "toLowerCase rt c \<noteq> ''__proto__''"
  shows "getOffers rt \<lparr>category = Some c\<rparr> =
     text_envelope (stringify_object rt [(''offers'', JArr (map offer_object OFFERS_home))])"
  using getOffers_fallback [OF assms(2)]
    inherited_lower [OF toLowerCase_no_upper [OF assms(1)] assms(3,4)] by simp

text \<open>The answer for the home category, as text, on the platform that prints the catalog's prices.\<close>

lemma getOffers_home_text:
  \<open>getOffers sample_runtime \<lparr>category = Some ''HOME''\<rparr> =
     text_envelope
       ''{"offers":[{"id":"home_basic","name":"Home Basic Shield","price":49.99,"description":"Door/Window sensors, 24/7 monitoring."},{"id":"home_pro","name":"Home Pro+","price":99.99,"description":"Includes cameras, smart alerts, and fire monitoring."}]}''\<close>
  by (simp add: getOffers_def selectedOffers_def selectedCategory_def lower_defs obj_get_def
      OFFERS_def OFFERS_home_def offer_object_def stringify_object_def quote_def quote_char_def
      sample_runtime_def catalog_decimal_def)

text \<open>
  Claim C2. For every input of \<^verbatim>\<open>getOffers\<close>, a category that lower-cases to
  \<^verbatim>\<open>home\<close> or \<^verbatim>\<open>business\<close> gives that category's offers, and every other input
  gives the home offers. The code departs from this on the category names an object
  inherits: \<^verbatim>\<open>OFFERS['constructor']\<close> is the function \<^verbatim>\<open>Object\<close>, which is truthy
  and which \<^verbatim>\<open>JSON.stringify\<close> leaves out, so the tool answers \<^verbatim>\<open>{}\<close>; and
  \<^verbatim>\<open>OFFERS['__proto__']\<close> is \<^verbatim>\<open>Object.prototype\<close>, written as an empty object.
  Neither answer is the answer for an absent category.
\<close>

theorem getOffers_inherited_name:
  "getOffers rt \<lparr>category = Some ''constructor''\<rparr> = text_envelope ''{}''
   \<and> getOffers rt \<lparr>category = Some ''__proto__''\<rparr> =
       text_envelope (''{'' @ quote ''offers'' @ '':{}}'')
   \<and> getOffers rt \<lparr>category = Some ''constructor''\<rparr> \<noteq> getOffers rt \<lparr>category = None\<rparr>
   \<and> getOffers rt \<lparr>category = Some ''__proto__''\<rparr> \<noteq> getOffers rt \<lparr>category = None\<rparr>"
  by (simp add: getOffers_def selectedOffers_def selectedCategory_def lower_defs obj_get_def
      OFFERS_def Object_prototype_def stringify_object_def text_envelope_def quote_def quote_char_def)

subsection \<open>\<^verbatim>\<open>generateOfferWidget\<close>\<close>

lemma join_empty_concat: "join [] xs = concat xs"
  by (induction "[]::string" xs rule: join.induct) simp_all

lemma widgetHtml_concat: "widgetHtml rt os = concat (map (offer_card rt) os)"
  by (simp add: widgetHtml_def join_empty_concat)

lemma stringify_id_elements:
  "stringify_elements rt (map (\<lambda>offer. JStr (id' offer)) os) = map (\<lambda>offer. quote (id' offer)) os"
  by (induction os) simp_all

text \<open>
  The card of an offer names the offer twice: as the attribute \<^verbatim>\<open>data-offer-id\<close> of
  its box, and as the argument of the \<^verbatim>\<open>agentCall\<close> of its button.
\<close>

lemma card_part1_end: "suffix (''data-offer-id='' @ [CHR 0x22]) card_part1"
  by (simp add: card_part1_def suffix_to_prefix)

lemma card_part2_start: "prefix ([CHR 0x22] @ ''>'') card_part2"
  by (simp add: card_part2_def)

lemma card_part5_end: "suffix (''{offer_id: '' @ [CHR 0x27]) card_part5"
  by (simp add: card_part5_def suffix_to_prefix)

lemma card_part6_start: "prefix ([CHR 0x27] @ ''})'') card_part6"
  by (simp add: card_part6_def)

lemma offer_card_attribute:
  "sublist (''data-offer-id='' @ [CHR 0x22] @ id' offer @ [CHR 0x22] @ ''>'') (offer_card rt offer)"
proof -
  obtain before where b: "card_part1 = before @ ''data-offer-id='' @ [CHR 0x22]"
    using card_part1_end unfolding suffix_def by auto
  obtain after where a: "card_part2 = ([CHR 0x22] @ ''>'') @ after"
    using card_part2_start unfolding prefix_def by auto
  have "offer_card rt offer =
      before @ (''data-offer-id='' @ [CHR 0x22] @ id' offer @ [CHR 0x22] @ ''>'') @
      (after @ name offer @ card_part3 @ Number_toFixed2 rt (price offer) @ card_part4 @
       description offer @ card_part5 @ id' offer @ card_part6)"
    unfolding offer_card_def b a by simp
  then show ?thesis by (metis sublist_appendI)
qed

lemma offer_card_button:
  "sublist (''{offer_id: '' @ [CHR 0x27] @ id' offer @ [CHR 0x27] @ ''})'') (offer_card rt offer)"
proof -
  obtain before where b: "card_part5 = before @ ''{offer_id: '' @ [CHR 0x27]"
    using card_part5_end unfolding suffix_def by auto
  obtain after where a: "card_part6 = ([CHR 0x27] @ ''})'') @ after"
    using card_part6_start unfolding prefix_def by auto
  have "offer_card rt offer =
      (card_part1 @ id' offer @ card_part2 @ name offer @ card_part3 @
       Number_toFixed2 rt (price offer) @ card_part4 @ description offer @ before) @
      (''{offer_id: '' @ [CHR 0x27] @ id' offer @ [CHR 0x27] @ ''})'') @ after"
    unfolding offer_card_def b a by simp
  then show ?thesis by (metis sublist_appendI)
qed

lemma offer_card_not_empty: "offer_card rt offer \<noteq> []"
  by (simp add: offer_card_def card_part1_def)

lemma finalWidget_twice: "finalWidget rt [a, a] \<noteq> finalWidget rt [a]"
proof
  assume "finalWidget rt [a, a] = finalWidget rt [a]"
  then have "length (finalWidget rt [a, a]) = length (finalWidget rt [a])" by simp
  then have "length (offer_card rt a) = 0" by (simp add: finalWidget_def widgetHtml_concat)
  with offer_card_not_empty show False by simp
qed

text \<open>
  Claim C4. On absent or empty offers \<^verbatim>\<open>generateOfferWidget\<close> returns the payload with
  status \<^verbatim>\<open>error\<close>, a message and no \<^verbatim>\<open>widget_data\<close>. On a non-empty list it returns
  status \<^verbatim>\<open>success\<close> with \<^verbatim>\<open>widget_data\<close>, whose \<^verbatim>\<open>metadata.offers\<close> holds the
  ids of the input in the input's order, one for each offer, and whose markup holds the
  card of each offer in that order, one for each offer: nothing is sorted and no
  duplicate is dropped. The ids reach the text of the envelope in that order too. The
  card of an offer is the template filled with its id, name, price and description; it is
  never empty and names the offer's id in its attribute and in its button, so that an
  offer given twice is rendered twice, which differs from rendering it once.
\<close>

theorem generateOfferWidget_payload:
  "generateOfferWidget rt inp = text_envelope (stringify_object rt (widget_payload rt inp))
   \<and> widget_payload rt \<lparr>offers = None\<rparr> =
       [(''status'', JStr ''error''), (''message'', JStr ''No offers available to generate widget.'')]
   \<and> widget_payload rt \<lparr>offers = Some []\<rparr> = widget_payload rt \<lparr>offers = None\<rparr>
   \<and> obj_get (widget_payload rt \<lparr>offers = None\<rparr>) ''widget_data'' = JUndefined
   \<and> widget_payload rt \<lparr>offers = Some (x # xs)\<rparr> =
       [(''status'', JStr ''success''),
        (''widget_data'',
           JObj [(''html'', JStr (frame_part1 @ concat (map (offer_card rt) (x # xs)) @ frame_part2)),
                 (''metadata'', JObj [(''offers'', JArr (map (\<lambda>offer. JStr (id' offer)) (x # xs)))])])]
   \<and> JSON_stringify rt (JArr (map (\<lambda>offer. JStr (id' offer)) (x # xs))) =
       Some (''['' @ join '','' (map (\<lambda>offer. quote (id' offer)) (x # xs)) @ '']'')
   \<and> offer_card rt offer =
       card_part1 @ id' offer @ card_part2 @ name offer @ card_part3 @
       Number_toFixed2 rt (price offer) @ card_part4 @ description offer @ card_part5 @
       id' offer @ card_part6
   \<and> offer_card rt offer \<noteq> []
   \<and> sublist (''data-offer-id='' @ [CHR 0x22] @ id' offer @ [CHR 0x22] @ ''>'') (offer_card rt offer)
   \<and> sublist (''{offer_id: '' @ [CHR 0x27] @ id' offer @ [CHR 0x27] @ ''})'') (offer_card rt offer)
   \<and> widgetHtml rt (ys @ zs) = widgetHtml rt ys @ widgetHtml rt zs
   \<and> finalWidget rt [a, a] = frame_part1 @ offer_card rt a @ offer_card rt a @ frame_part2
   \<and> finalWidget rt [a, a] \<noteq> finalWidget rt [a]"
  using offer_card_attribute [of offer rt] offer_card_button [of offer rt]
    offer_card_not_empty [of rt offer] finalWidget_twice [of rt a]
  by (simp add: generateOfferWidget_def widget_payload_def finalWidget_def widgetHtml_concat
      obj_get_def Object_prototype_def stringify_id_elements offer_card_def)

subsection \<open>\<^verbatim>\<open>createPurchaseLink\<close>\<close>

text \<open>
  Claim C5, amended. For every non-empty offer id \<^verbatim>\<open>createPurchaseLink\<close> returns an
  envelope whose payload holds the URL made of the checkout address, the lower-cased
  offer id and the first eight characters of a freshly generated UUID. Two calls with the
  same offer id give the same URL exactly when the first eight characters of their UUIDs
  are the same.
\<close>

theorem createPurchaseLink_url:
  "oid \<noteq> [] \<Longrightarrow>
   createPurchaseLink rt uuid \<lparr>offer_id = Some oid\<rparr> =
     text_envelope (stringify_object rt [(''purchase_url'', JStr (checkoutUrl rt oid uuid))])
   \<and> checkoutUrl rt oid uuid =
     ''https://your-company.com/checkout/'' @ toLowerCase rt oid @ ''?source=agent-'' @ take 8 uuid
   \<and> sublist (toLowerCase rt oid) (checkoutUrl rt oid uuid)
   \<and> suffix (take 8 uuid) (checkoutUrl rt oid uuid)
   \<and> (checkoutUrl rt oid uuid = checkoutUrl rt oid uuid2) = (take 8 uuid = take 8 uuid2)"
proof -
  assume "oid \<noteq> []"
  then have "createPurchaseLink rt uuid \<lparr>offer_id = Some oid\<rparr> =
     text_envelope (stringify_object rt [(''purchase_url'', JStr (checkoutUrl rt oid uuid))])"
    by (simp add: createPurchaseLink_def)
  moreover have "sublist (toLowerCase rt oid) (checkoutUrl rt oid uuid)"
    unfolding checkoutUrl_def by (meson sublist_appendI)
  moreover have "suffix (take 8 uuid) (checkoutUrl rt oid uuid)"
    unfolding checkoutUrl_def by (simp add: suffix_def)
  moreover have "(checkoutUrl rt oid uuid = checkoutUrl rt oid uuid2) = (take 8 uuid = take 8 uuid2)"
    by (simp add: checkoutUrl_def)
  ultimately show ?thesis by (simp add: checkoutUrl_def)
qed

theorem createPurchaseLink_url_witness:
  "''Home_PRO'' \<noteq> []
   \<and> createPurchaseLink sample_runtime ''3f2b8c1e-9d4a-4c6b-8e2f-1a2b3c4d5e6f''
       \<lparr>offer_id = Some ''Home_PRO''\<rparr> =
     text_envelope (stringify_object sample_runtime
       [(''purchase_url'', JStr ''https://your-company.com/checkout/home_pro?source=agent-3f2b8c1e'')])
   \<and> sublist ''home_pro''
       (checkoutUrl sample_runtime ''Home_PRO'' ''3f2b8c1e-9d4a-4c6b-8e2f-1a2b3c4d5e6f'')"
  using createPurchaseLink_url
    [of "''Home_PRO''" sample_runtime "''3f2b8c1e-9d4a-4c6b-8e2f-1a2b3c4d5e6f''"]
  by (simp add: checkoutUrl_def lower_defs)

text \<open>
  On an offer id with a letter beyond ASCII the lower-cased id in the URL is the
  platform's: here the id is the capital E with acute, and the platform lower-cases it.
\<close>

lemma createPurchaseLink_beyond_ascii:
  "String_toLowerCase rt [CHR 0xC3, CHR 0x89] = [CHR 0xC3, CHR 0xA9] \<Longrightarrow>
   checkoutUrl rt [CHR 0xC3, CHR 0x89] uuid =
     ''https://your-company.com/checkout/'' @ [CHR 0xC3, CHR 0xA9] @ ''?source=agent-'' @ take 8 uuid"
  by (simp add: checkoutUrl_def toLowerCase_def ascii_def)

text \<open>
  The claim as stated fails: two different UUIDs with the same first eight characters
  give the same answer for the same offer id.
\<close>

theorem createPurchaseLink_repeated_url_counterexample:
  "''3f2b8c1e-9d4a-4c6b-8e2f-1a2b3c4d5e6f'' \<noteq> ''3f2b8c1e-0000-4000-8000-000000000000''
   \<and> createPurchaseLink sample_runtime ''3f2b8c1e-9d4a-4c6b-8e2f-1a2b3c4d5e6f''
       \<lparr>offer_id = Some ''home_pro''\<rparr> =
     createPurchaseLink sample_runtime ''3f2b8c1e-0000-4000-8000-000000000000''
       \<lparr>offer_id = Some ''home_pro''\<rparr>"
  by (simp add: createPurchaseLink_def checkoutUrl_def)

text \<open>
  Claim C9. With an absent or empty offer id \<^verbatim>\<open>createPurchaseLink\<close> returns, whatever
  the platform and the UUID, the envelope whose one text item asks the caller to have the
  user name an offer id. The check is the handler's own, the first thing it does.
\<close>

theorem createPurchaseLink_missing_id:
  "createPurchaseLink rt uuid \<lparr>offer_id = None\<rparr> = text_envelope missing_offer_id
   \<and> createPurchaseLink rt uuid \<lparr>offer_id = Some []\<rparr> = text_envelope missing_offer_id
   \<and> text_envelope missing_offer_id =
       JObj [(''content'', JArr [JObj [(''type'', JStr ''text''),
         (''text'', JStr ''Error: Missing offer ID. Please ask the user to specify an ID from the available offers.'')]])]"
  by (simp add: createPurchaseLink_def text_envelope_def missing_offer_id_def)

subsection \<open>The envelope\<close>

text \<open>
  Claim C10. Each of the three handlers returns, on every input and on every branch, an
  envelope whose content is exactly one item, of type \<^verbatim>\<open>text\<close>.
\<close>

theorem handlers_one_text_item:
  "(\<exists>t. getOffers rt g =
      JObj [(''content'', JArr [JObj [(''type'', JStr ''text''), (''text'', JStr t)]])])
   \<and> (\<exists>t. createPurchaseLink rt uuid c =
      JObj [(''content'', JArr [JObj [(''type'', JStr ''text''), (''text'', JStr t)]])])
   \<and> (\<exists>t. generateOfferWidget rt w =
      JObj [(''content'', JArr [JObj [(''type'', JStr ''text''), (''text'', JStr t)]])])"
  by (simp add: getOffers_def createPurchaseLink_def generateOfferWidget_def text_envelope_def
      split: option.split)

section \<open>Properties of the chat client\<close>

lemmas reading = get_def obj_get_def Object_prototype_def

lemmas responding = response_turn_def try_response_def callAgent_def callAgent_result_def
  parseAgentResponse_def parse_part_def agent_turn_def widget_of_def

lemmas typing = has_text_def trim_def ascii_def is_space_def

subsection \<open>One submission\<close>

text \<open>
  A submission in a state that is not thinking appends one entry, the one made from the
  agent's answer. The transcript with the user's message goes to the agent only.
\<close>

lemma handleSendMessage_idle:
  "\<not> isThinking s \<Longrightarrow>
   handleSendMessage rt post s userText toolName toolArgs =
     s\<lparr>history := history s @
          [response_turn rt (callAgent post (newHistory rt (history s) userText toolName toolArgs))],
       input := (if has_text rt userText then [] else input s)\<rparr>"
  by (simp add: handleSendMessage_def resume_def awaiting_def)

text \<open>It is the machine's run of one submission and its outcome, right after a render.\<close>

lemma handleSendMessage_run:
  "handleSendMessage rt post s userText toolName toolArgs =
     app (run rt \<lparr>app = s, rendered = s, bound = s, in_flight = [], mounted = True\<rparr>
       [Submit userText toolName toolArgs,
        Outcome (post (agent_request (newHistory rt (history s) userText toolName toolArgs)))])"
  by (simp add: handleSendMessage_def run_def callAgent_def submit_def)

text \<open>
  Claim C1. A submission of non-empty text in the idle state should append the user's
  turn and then, on a successful answer, the agent's turn, so that the stored
  conversation grows by two. The code pushes the user's turn onto the local copy
  \<^verbatim>\<open>newHistory\<close>, which it sends to the agent and never stores: on the text
  \<^verbatim>\<open>home\<close> and a successful answer the stored conversation grows by the agent's turn
  alone.
\<close>

theorem user_turn_not_stored:
  "history (handleSendMessage sample_runtime (\<lambda>request. Some prose_reply) initial_state
      (Some ''home'') None (JObj [])) =
     history initial_state @
       [JObj [(''role'', JStr ''agent''),
              (''content'', JObj [(''parts'', JArr [JObj [(''text'', JStr ''We have two home packages.'')]])])]]
   \<and> newHistory sample_runtime (history initial_state) (Some ''home'') None (JObj []) =
     history initial_state @ [user_turn ''home'']"
  by (simp add: handleSendMessage_def resume_def awaiting_def initial_state_def responding reading
      prose_reply_def sample_runtime_def newHistory_def typing
      sample_widget_text_def sample_widget_def)

subsection \<open>Widgets\<close>

lemma sample_widget_text_stringify:
  "JSON_stringify rt (JObj [(''status'', JStr ''success''), (''widget_data'', sample_widget)]) =
     Some sample_widget_text"
  by (simp add: sample_widget_def sample_widget_text_def quote_def quote_char_def)

lemma map_of_update_prop: "k' \<noteq> k \<Longrightarrow> map_of (update_prop k v ps) k' = map_of ps k'"
  by (induction ps) auto

lemma opt_get_set_prop: "k' \<noteq> k \<Longrightarrow> opt_get (set_prop m k v) k' = opt_get m k'"
  by (cases m) (simp_all add: obj_get_def map_of_update_prop)

lemma nullish_set_prop: "nullish (set_prop m k v) = nullish m"
  by (cases m) simp_all

lemma parse_set_text: "parseAgentResponse rt (set_prop m ''text'' v) = parseAgentResponse rt m"
  by (simp add: parseAgentResponse_def opt_get_set_prop)

text \<open>
  When the extracted text parses to data with a truthy \<^verbatim>\<open>widget_data\<close>, the entry
  carries it as \<^verbatim>\<open>widget\<close> and its content gets the property \<^verbatim>\<open>text\<close> with the
  confirmation; otherwise the entry is the content as it came.
\<close>

lemma agent_turn_widget:
  "widget_of rt (text' p) = Some w \<Longrightarrow>
     agent_turn rt m p =
       JObj [(''role'', JStr ''agent''), (''content'', set_prop m ''text'' (JStr confirmation)),
             (''widget'', w)]"
  "widget_of rt (text' p) = None \<Longrightarrow>
     agent_turn rt m p = JObj [(''role'', JStr ''agent''), (''content'', m)]"
  by (simp_all add: agent_turn_def)

lemma agent_turn_content:
  "opt_get (agent_turn rt m p) ''content'' = m
   \<or> opt_get (agent_turn rt m p) ''content'' = set_prop m ''text'' (JStr confirmation)"
  by (simp add: agent_turn_def obj_get_def split: option.split)

text \<open>
  What \<^verbatim>\<open>ChatMessage\<close> shows for the entry of an answer is the extracted text, with or
  without a widget: it reads neither the property \<^verbatim>\<open>text\<close> nor the entry's
  \<^verbatim>\<open>widget\<close>.
\<close>

lemma agent_turn_display:
  assumes "parseAgentResponse rt m = Some p" and "opt_get m ''role'' \<noteq> JStr ''tool''"
    and "\<not> nullish m"
  shows "ChatMessage rt (opt_get (agent_turn rt m p) ''content'') False False =
           Some (TextView (text' p) (take 3 (groundingSources p)))"
proof -
  have "ChatMessage rt m False False = Some (TextView (text' p) (take 3 (groundingSources p)))"
    using assms by (simp add: ChatMessage_def get_def)
  moreover have "ChatMessage rt (set_prop m ''text'' (JStr confirmation)) False False =
      Some (TextView (text' p) (take 3 (groundingSources p)))"
    using assms by (simp add: ChatMessage_def get_def parse_set_text opt_get_set_prop nullish_set_prop)
  ultimately show ?thesis using agent_turn_content [of rt m p] by auto
qed

text \<open>
  In particular an entry whose content holds its parts directly, as the greeting does, is
  shown as the empty text: \<^verbatim>\<open>App\<close> hands the content to \<^verbatim>\<open>ChatMessage\<close>, which
  looks for the parts one \<^verbatim>\<open>content\<close> deeper.
\<close>

lemma greeting_render: "render rt initial_state = [Some (TextView [] [])]"
  by (simp add: render_def render_entry_def initial_state_def ChatMessage_def
      parseAgentResponse_def reading)

text \<open>
  Claim C3. An answer whose extracted text parses as a widget payload should give a
  turn tagged with the \<^verbatim>\<open>widget_data\<close> and displayed as the confirmation
  \<^verbatim>\<open>Here are the recommended packages:\<close>; any other answer is displayed as prose,
  untagged. On the answer whose content holds the payload where \<^verbatim>\<open>parseAgentResponse\<close>
  looks for it, the code tags the turn and sets the confirmation as the property
  \<^verbatim>\<open>text\<close> of its content, but \<^verbatim>\<open>ChatMessage\<close> shows the raw payload. On the
  answer that holds the same payload in \<^verbatim>\<open>content.parts\<close>, the extracted text is
  empty: the turn is not tagged and is shown as the empty text.
\<close>

theorem widget_turn_shows_payload:
  "history (handleSendMessage sample_runtime (\<lambda>request. Some nested_widget_reply) initial_state
      (Some ''home'') None (JObj [])) =
     history initial_state @
       [JObj [(''role'', JStr ''agent''),
              (''content'',
                 JObj [(''content'', JObj [(''parts'', JArr [JObj [(''text'', JStr sample_widget_text)]])]),
                       (''text'', JStr ''Here are the recommended packages:'')]),
              (''widget'', sample_widget)]]
   \<and> render sample_runtime
        (handleSendMessage sample_runtime (\<lambda>request. Some nested_widget_reply) initial_state
           (Some ''home'') None (JObj [])) =
       [Some (TextView [] []), Some (TextView sample_widget_text [])]
   \<and> history (handleSendMessage sample_runtime (\<lambda>request. Some widget_reply) initial_state
      (Some ''home'') None (JObj [])) =
     history initial_state @
       [JObj [(''role'', JStr ''agent''),
              (''content'', JObj [(''parts'', JArr [JObj [(''text'', JStr sample_widget_text)]])])]]
   \<and> render sample_runtime
        (handleSendMessage sample_runtime (\<lambda>request. Some widget_reply) initial_state
           (Some ''home'') None (JObj [])) =
       [Some (TextView [] []), Some (TextView [] [])]"
  by (simp add: handleSendMessage_def resume_def awaiting_def initial_state_def responding reading
      nested_widget_reply_def widget_reply_def sample_runtime_def confirmation_def
      render_def render_entry_def enumerate_eq_zip ChatMessage_def sample_widget_text_def
      sample_widget_def)

subsection \<open>The busy flag\<close>

lemma run_Cons: "run rt sys (ev # events) = run rt (step rt sys ev) events"
  by (simp add: run_def)

text \<open>
  A submission through a function that has seen the flag set changes nothing: after a
  render, and for \<^verbatim>\<open>window.agentCall\<close> after the effect of that render, a thinking
  state rejects.
\<close>

lemma seen_busy_rejects:
  "isThinking (rendered sys) \<Longrightarrow> step rt sys (Submit userText toolName toolArgs) = sys"
  "isThinking (bound sys) \<Longrightarrow> step rt sys (AgentCall widgetTool toolArgs) = sys"
  "isThinking s \<Longrightarrow> handleSendMessage rt post s userText toolName toolArgs = s"
  by (simp_all add: submit_def handleSendMessage_def)

text \<open>
  Claim C7. While the orchestrator is thinking, every submission should be rejected, so
  that at most one call is in flight. The flag the code tests is the one its function
  saw at the render that made it. Two calls of \<^verbatim>\<open>window.agentCall\<close> with no render
  and effect between them both pass the test, although the first has set the flag: two
  requests are in flight. With the render and its effect between them the second call is
  rejected.
\<close>

theorem stale_flag_two_in_flight:
  "isThinking (app (step sample_runtime initial_system
      (AgentCall ''createPurchaseLink'' (JObj [(''offer_id'', JStr ''home_pro'')]))))
   \<and> length (in_flight (run sample_runtime initial_system
        [AgentCall ''createPurchaseLink'' (JObj [(''offer_id'', JStr ''home_pro'')]),
         AgentCall ''createPurchaseLink'' (JObj [(''offer_id'', JStr ''home_pro'')])])) = 2
   \<and> length (in_flight (run sample_runtime initial_system
        [AgentCall ''createPurchaseLink'' (JObj [(''offer_id'', JStr ''home_pro'')]),
         Render, Effect,
         AgentCall ''createPurchaseLink'' (JObj [(''offer_id'', JStr ''home_pro'')])])) = 1"
  by (simp add: run_def submit_def initial_system_def initial_state_def awaiting_def typing
      render_def render_entry_def enumerate_eq_zip ChatMessage_def parseAgentResponse_def reading)

subsection \<open>Failures of the agent call\<close>

text \<open>
  Claim C6, amended. When the call to the agent fails in transport, the orchestrator
  appends exactly one error turn, carrying the fixed message
  \<^verbatim>\<open>Failed to connect to the agent service.\<close>; when the answer carries a truthy
  \<^verbatim>\<open>error\<close>, it appends exactly one error turn carrying that value. Either way no
  further call is made.
\<close>

theorem agent_failure_error_turn:
  "mounted sys \<and> in_flight sys = request # requests \<Longrightarrow>
   history (app (step rt sys (Outcome None))) =
     history (app sys) @ [error_turn (JStr connect_failure)]
   \<and> in_flight (step rt sys (Outcome None)) = requests
   \<and> (get data ''error'' = Some e \<and> truthy e \<longrightarrow>
        history (app (step rt sys (Outcome (Some data)))) = history (app sys) @ [error_turn e]
        \<and> in_flight (step rt sys (Outcome (Some data))) = requests)"
  by (simp add: resume_def response_turn_def try_response_def callAgent_result_def reading
      connect_failure_def)

theorem agent_failure_error_turn_witness:
  "mounted (step sample_runtime initial_system (Submit (Some ''home'') None (JObj [])))
   \<and> in_flight (step sample_runtime initial_system (Submit (Some ''home'') None (JObj []))) =
     agent_request (history initial_state @ [user_turn ''home'']) # []
   \<and> history (app (step sample_runtime
        (step sample_runtime initial_system (Submit (Some ''home'') None (JObj []))) (Outcome None))) =
     history initial_state @ [error_turn (JStr ''Failed to connect to the agent service.'')]
   \<and> in_flight (step sample_runtime
        (step sample_runtime initial_system (Submit (Some ''home'') None (JObj []))) (Outcome None)) = []
   \<and> get (JObj [(''error'', JStr ''quota exceeded'')]) ''error'' = Some (JStr ''quota exceeded'')
   \<and> truthy (JStr ''quota exceeded'')
   \<and> history (app (step sample_runtime
        (step sample_runtime initial_system (Submit (Some ''home'') None (JObj [])))
        (Outcome (Some (JObj [(''error'', JStr ''quota exceeded'')]))))) =
     history initial_state @ [error_turn (JStr ''quota exceeded'')]"
  using agent_failure_error_turn
    [of "step sample_runtime initial_system (Submit (Some ''home'') None (JObj []))"
      "agent_request (history initial_state @ [user_turn ''home''])" "[]" sample_runtime
      "JObj [(''error'', JStr ''quota exceeded'')]" "JStr ''quota exceeded''"]
  by (simp add: initial_system_def initial_state_def submit_def awaiting_def newHistory_def typing
      connect_failure_def reading)

text \<open>
  The claim as stated fails: the error turn for an answer with an \<^verbatim>\<open>error\<close> field
  carries that field's value, which changes with the answer and is neither of the two
  fixed messages of the client.
\<close>

theorem error_field_counterexample:
  "history (app (step sample_runtime
      (step sample_runtime initial_system (Submit (Some ''home'') None (JObj [])))
      (Outcome (Some (JObj [(''error'', JStr ''quota exceeded'')]))))) =
     history initial_state @ [error_turn (JStr ''quota exceeded'')]
   \<and> history (app (step sample_runtime
      (step sample_runtime initial_system (Submit (Some ''home'') None (JObj [])))
      (Outcome (Some (JObj [(''error'', JStr ''model overloaded'')]))))) =
     history initial_state @ [error_turn (JStr ''model overloaded'')]
   \<and> error_turn (JStr ''quota exceeded'') \<noteq> error_turn (JStr ''model overloaded'')
   \<and> error_turn (JStr ''quota exceeded'') \<noteq> error_turn (JStr connect_failure)
   \<and> error_turn (JStr ''quota exceeded'') \<noteq> error_turn (JStr unexpected_failure)"
  by (simp add: initial_system_def initial_state_def submit_def awaiting_def resume_def
      response_turn_def try_response_def callAgent_result_def reading error_turn_def
      connect_failure_def unexpected_failure_def)

text \<open>An answer that is neither an error nor of the expected shape gives one error turn too.\<close>

lemma malformed_answer:
  "response_turn rt JNull = error_turn (JStr unexpected_failure)"
  "response_turn rt (JObj []) = error_turn (JStr unexpected_failure)"
  "response_turn rt (JObj [(''candidates'', JArr [])]) = error_turn (JStr unexpected_failure)"
  by (simp_all add: response_turn_def try_response_def reading)

text \<open>
  Rendering an error turn throws: the entry has no content, and \<^verbatim>\<open>ChatMessage\<close> reads
  \<^verbatim>\<open>message.toolCalls\<close> before it looks at \<^verbatim>\<open>isError\<close>. So the render that follows
  an error turn unmounts \<^verbatim>\<open>App\<close>, and no submission is taken after it.
\<close>

lemma error_turn_render: "ChatMessage rt (opt_get (error_turn e) ''content'') True showLoading = None"
  by (simp add: ChatMessage_def error_turn_def reading parseAgentResponse_def)

lemma render_entry_error_turn: "render_entry rt s index (error_turn e) = None"
  by (simp add: render_entry_def ChatMessage_def error_turn_def reading parseAgentResponse_def)

lemma render_last_error_turn:
  "history s = h @ [error_turn e] \<Longrightarrow> None \<in> set (render rt s)"
proof -
  assume h: "history s = h @ [error_turn e]"
  have "(length h, error_turn e) \<in> set (enumerate 0 (history s))"
    by (simp add: h in_set_enumerate_eq)
  then have "render_entry rt s (length h) (error_turn e) \<in> set (render rt s)"
    unfolding render_def by force
  then show ?thesis by (simp add: render_entry_error_turn)
qed

lemma error_turn_unmounts:
  assumes "mounted sys" and "in_flight sys = request # requests"
  shows "\<not> mounted (step rt (step rt sys (Outcome None)) Render)"
    and "step rt (step rt (step rt sys (Outcome None)) Render) (Submit userText toolName toolArgs) =
      step rt (step rt sys (Outcome None)) Render"
proof -
  have "history (app (step rt sys (Outcome None))) =
      history (app sys) @ [error_turn (JStr connect_failure)]"
    using assms
    by (simp add: resume_def response_turn_def try_response_def callAgent_result_def reading
        connect_failure_def)
  then have "None \<in> set (render rt (app (step rt sys (Outcome None))))"
    by (rule render_last_error_turn)
  then show "\<not> mounted (step rt (step rt sys (Outcome None)) Render)" by simp
  then show "step rt (step rt (step rt sys (Outcome None)) Render) (Submit userText toolName toolArgs) =
      step rt (step rt sys (Outcome None)) Render" by simp
qed

subsection \<open>The stored conversation\<close>

lemma step_history:
  "history (app (step rt sys ev)) = history (app sys) @ step_appended rt sys ev"
proof (cases ev)
  case (Outcome outcome)
  then show ?thesis by (cases "in_flight sys") (simp_all add: resume_def)
qed (simp_all add: submit_def awaiting_def)

text \<open>
  Claim C8, amended. The stored conversation is append-only: it starts as the one
  greeting, and after \<^verbatim>\<open>setHistory\<close> has appended N entries it holds N + 1 elements,
  the greeting and then those entries in the order of the calls. From any state, what
  was stored stays as it is, in its place, in front of what a run appends.
\<close>

theorem history_append_only:
  "history (app (run rt sys events)) = history (app sys) @ appended rt sys events
   \<and> history (app (run rt initial_system events)) =
       history initial_state @ appended rt initial_system events
   \<and> length (history initial_state) = 1
   \<and> length (history (app (run rt initial_system events))) =
       Suc (length (appended rt initial_system events))"
proof -
  have grow: "history (app (run rt sys events)) = history (app sys) @ appended rt sys events"
    for sys
  proof (induction events arbitrary: sys)
    case Nil
    show ?case by (simp add: run_def)
  next
    case (Cons ev events)
    show ?case
      using Cons.IH [of "step rt sys ev"] unfolding run_Cons by (simp add: step_history)
  qed
  have init: "history (app initial_system) = history initial_state"
    by (simp add: initial_system_def)
  have one: "length (history initial_state) = 1"
    by (simp add: initial_state_def)
  show ?thesis using grow [of sys] grow [of initial_system] init one by simp
qed

text \<open>
  The claim as stated fails before the first append: the conversation holds one element,
  the greeting, and nothing has been appended.
\<close>

theorem seeded_history_counterexample:
  "length (history (app (run sample_runtime initial_system []))) \<noteq>
   length (appended sample_runtime initial_system [])"
  by (simp add: run_def initial_system_def initial_state_def)

end
